theory Spec2Isabelle
  imports Main "HOL-Library.Word"
begin

section \<open>JavaScript values\<close>

text \<open>
  The values that reach \<^verbatim>\<open>Requests.js\<close>: what a caller passes as \<^verbatim>\<open>params\<close>, \<^verbatim>\<open>id\<close>,
  \<^verbatim>\<open>url\<close> or \<^verbatim>\<open>apiKey\<close>, and what \<^verbatim>\<open>response.json()\<close> parses. They are the JSON
  values together with \<^verbatim>\<open>undefined\<close> (an omitted argument, a missing property) and
  \<^verbatim>\<open>NaN\<close>. A number is an integer from \<^verbatim>\<open>-2^53\<close> to \<^verbatim>\<open>2^53 - 1\<close> here, held as a signed word
  of 54 bits: these are numbers that \<^verbatim>\<open>Number\<close> represents exactly and prints in plain
  digits, and the program does no arithmetic on them (\<^verbatim>\<open>0\<close> and \<^verbatim>\<open>-0\<close> coincide; larger
  numbers, fractions and the infinities are outside the model). An object is the list of
  its own enumerable properties in enumeration order, each key once (on a list that
  repeats a key, which stands for no object, a read takes the first entry).
  Functions, symbols, accessors and objects with a prototype of their own are outside the
  model.
\<close>

datatype jsval =
    JUndefined
  | JNull
  | JBool bool
  | JNum "54 word"
  | JNaN
  | JStr string
  | JArr "jsval list"
  | JObj "(string \<times> jsval) list"

text \<open>What the code can throw, or a promise can be rejected with.\<close>

datatype js_error =
    Error string         \<comment> \<open>\<^verbatim>\<open>new Error(message)\<close>\<close>
  | TypeError            \<comment> \<open>reading a property of \<^verbatim>\<open>undefined\<close> or \<^verbatim>\<open>null\<close>\<close>
  | ReferenceError string  \<comment> \<open>reading an identifier that no scope binds\<close>
  | Thrown jsval         \<comment> \<open>\<^verbatim>\<open>throw v\<close> of a plain value\<close>
  | TransportError string  \<comment> \<open>a rejection of \<^verbatim>\<open>fetch\<close> or of \<^verbatim>\<open>.json()\<close>\<close>

text \<open>\<^verbatim>\<open>ToBoolean\<close>: the falsy values are \<^verbatim>\<open>undefined\<close>, \<^verbatim>\<open>null\<close>, \<^verbatim>\<open>false\<close>, \<^verbatim>\<open>0\<close>,
  \<^verbatim>\<open>NaN\<close> and the empty string.\<close>

fun truthy :: "jsval \<Rightarrow> bool" where
  "truthy JUndefined = False"
| "truthy JNull = False"
| "truthy (JBool b) = b"
| "truthy (JNum n) = (n \<noteq> 0)"
| "truthy JNaN = False"
| "truthy (JStr s) = (s \<noteq> [])"
| "truthy (JArr xs) = True"
| "truthy (JObj kvs) = True"

text \<open>\<^verbatim>\<open>a || b\<close> on values.\<close>

definition js_or :: "jsval \<Rightarrow> jsval \<Rightarrow> jsval" where
  "js_or a b = (if truthy a then a else b)"

text \<open>A parameter with a default, \<^verbatim>\<open>function (x = d)\<close>: the default replaces
  \<^verbatim>\<open>undefined\<close> only.\<close>

definition default_param :: "jsval \<Rightarrow> jsval \<Rightarrow> jsval" where
  "default_param v d = (if v = JUndefined then d else v)"

text \<open>\<^verbatim>\<open>Array.isArray\<close>.\<close>

fun isArray :: "jsval \<Rightarrow> bool" where
  "isArray (JArr xs) = True"
| "isArray v = False"

text \<open>
  The property read \<^verbatim>\<open>v.k\<close>. On \<^verbatim>\<open>undefined\<close> and \<^verbatim>\<open>null\<close> it throws a TypeError. On
  an object it is the own property, else \<^verbatim>\<open>undefined\<close>; on any other value it is
  \<^verbatim>\<open>undefined\<close>. This is the read of a name that no built-in prototype defines and that
  is neither an index nor \<^verbatim>\<open>length\<close>, which holds of every name this program reads
  (\<^verbatim>\<open>publicKeys\<close>, \<^verbatim>\<open>password\<close>, \<^verbatim>\<open>publicKey\<close>, \<^verbatim>\<open>tx\<close>, \<^verbatim>\<open>recipient\<close>, \<^verbatim>\<open>amount\<close>,
  \<^verbatim>\<open>fee\<close>, \<^verbatim>\<open>issuer\<close>, \<^verbatim>\<open>assetCode\<close>, \<^verbatim>\<open>sender\<close>, \<^verbatim>\<open>assetId\<close>, \<^verbatim>\<open>transactionId\<close>,
  \<^verbatim>\<open>blockId\<close>, \<^verbatim>\<open>numBlocks\<close>, \<^verbatim>\<open>error\<close>).
\<close>

fun get_prop :: "jsval \<Rightarrow> string \<Rightarrow> js_error + jsval" where
  "get_prop JUndefined k = Inl TypeError"
| "get_prop JNull k = Inl TypeError"
| "get_prop (JObj kvs) k = Inr (case map_of kvs k of None \<Rightarrow> JUndefined | Some v \<Rightarrow> v)"
| "get_prop v k = Inr JUndefined"

subsection \<open>Numbers and strings as text\<close>

definition digit_char :: "nat \<Rightarrow> char" where
  "digit_char d = char_of (48 + d)"

function dec_digits :: "nat \<Rightarrow> string" where
  "dec_digits n =
     (if n < 10 then [digit_char n] else dec_digits (n div 10) @ [digit_char (n mod 10)])"
  by pat_completeness auto
termination
  by (relation "measure id") auto

declare dec_digits.simps [simp del]

text \<open>\<^verbatim>\<open>Number::toString\<close> on an integer of magnitude at most \<^verbatim>\<open>2^53\<close>: its digits, after a
  minus sign when it is negative. Every number of the model is read into this range by
  \<open>sint\<close>.\<close>

definition int_to_string :: "int \<Rightarrow> string" where
  "int_to_string i = (if i < 0 then CHR ''-'' # dec_digits (nat (- i)) else dec_digits (nat i))"

fun join :: "string \<Rightarrow> string list \<Rightarrow> string" where
  "join sep [] = []"
| "join sep [s] = s"
| "join sep (s # t # ss) = s @ sep @ join sep (t # ss)"

text \<open>\<^verbatim>\<open>ToString\<close>, as the operator \<^verbatim>\<open>+\<close> applies it to its left operand when the right
  one is a string: an array joins its elements with commas (\<^verbatim>\<open>null\<close> and \<^verbatim>\<open>undefined\<close>
  elements as the empty string), a plain object is \<^verbatim>\<open>[object Object]\<close>.\<close>

fun ToString :: "jsval \<Rightarrow> string"
  and ToString_elems :: "jsval list \<Rightarrow> string list" where
  "ToString JUndefined = ''undefined''"
| "ToString JNull = ''null''"
| "ToString (JBool b) = (if b then ''true'' else ''false'')"
| "ToString (JNum n) = int_to_string (sint n)"
| "ToString JNaN = ''NaN''"
| "ToString (JStr s) = s"
| "ToString (JArr xs) = join '','' (ToString_elems xs)"
| "ToString (JObj kvs) = ''[object Object]''"
| "ToString_elems [] = []"
| "ToString_elems (x # xs) =
     (if x = JUndefined \<or> x = JNull then [] else ToString x) # ToString_elems xs"

text \<open>\<^verbatim>\<open>v + s\<close> for a string \<^verbatim>\<open>s\<close>: concatenation.\<close>

definition js_plus :: "jsval \<Rightarrow> string \<Rightarrow> string" where
  "js_plus v s = ToString v @ s"

subsection \<open>\<^verbatim>\<open>JSON.stringify\<close>\<close>

definition hex_char :: "nat \<Rightarrow> char" where
  "hex_char d = (if d < 10 then char_of (48 + d) else char_of (87 + d))"

text \<open>One character of a quoted JSON string: the short escapes, a \<^verbatim>\<open>u\<close> escape of four
  hexadecimal digits for the other control characters, every other character as it is.\<close>

definition quote_char :: "char \<Rightarrow> string" where
  "quote_char c =
     (let n = (of_char c :: nat) in
      if n = 8 then [CHR 0x5C, CHR ''b'']
      else if n = 9 then [CHR 0x5C, CHR ''t'']
      else if n = 10 then [CHR 0x5C, CHR ''n'']
      else if n = 12 then [CHR 0x5C, CHR ''f'']
      else if n = 13 then [CHR 0x5C, CHR ''r'']
      else if n = 34 then [CHR 0x5C, CHR 0x22]
      else if n = 92 then [CHR 0x5C, CHR 0x5C]
      else if n < 32 then
        [CHR 0x5C, CHR ''u'', CHR ''0'', CHR ''0'', hex_char (n div 16), hex_char (n mod 16)]
      else [c])"

definition QuoteJSONString :: "string \<Rightarrow> string" where
  "QuoteJSONString s = CHR 0x22 # concat (map quote_char s) @ [CHR 0x22]"

text \<open>
  Serialisation of a value; \<open>None\<close> is the result \<^verbatim>\<open>undefined\<close>. A property whose value
  serialises to \<^verbatim>\<open>undefined\<close> is left out of its object, an array element that does so is
  written \<^verbatim>\<open>null\<close>, and \<^verbatim>\<open>NaN\<close> is written \<^verbatim>\<open>null\<close>.
\<close>

fun SerializeJSON :: "jsval \<Rightarrow> string option"
  and SerializeJSONArray :: "jsval list \<Rightarrow> string list"
  and SerializeJSONObject :: "(string \<times> jsval) list \<Rightarrow> string list" where
  "SerializeJSON JUndefined = None"
| "SerializeJSON JNull = Some ''null''"
| "SerializeJSON (JBool b) = Some (if b then ''true'' else ''false'')"
| "SerializeJSON (JNum n) = Some (int_to_string (sint n))"
| "SerializeJSON JNaN = Some ''null''"
| "SerializeJSON (JStr s) = Some (QuoteJSONString s)"
| "SerializeJSON (JArr xs) = Some (''['' @ join '','' (SerializeJSONArray xs) @ '']'')"
| "SerializeJSON (JObj kvs) = Some (''{'' @ join '','' (SerializeJSONObject kvs) @ ''}'')"
| "SerializeJSONArray [] = []"
| "SerializeJSONArray (x # xs) =
     (case SerializeJSON x of None \<Rightarrow> ''null'' | Some s \<Rightarrow> s) # SerializeJSONArray xs"
| "SerializeJSONObject [] = []"
| "SerializeJSONObject ((k, v) # kvs) =
     (case SerializeJSON v of
        None \<Rightarrow> SerializeJSONObject kvs
      | Some s \<Rightarrow> (QuoteJSONString k @ '':'' @ s) # SerializeJSONObject kvs)"

definition JSON_stringify :: "jsval \<Rightarrow> jsval" where
  "JSON_stringify v = (case SerializeJSON v of None \<Rightarrow> JUndefined | Some s \<Rightarrow> JStr s)"

subsection \<open>Object spread\<close>

text \<open>The own enumerable properties that \<^verbatim>\<open>{ ...v }\<close> copies: those of an object, the
  indexed elements of an array, the indexed characters of a string, none of any other
  value.\<close>

fun index_props :: "nat \<Rightarrow> jsval list \<Rightarrow> (string \<times> jsval) list" where
  "index_props i [] = []"
| "index_props i (x # xs) = (dec_digits i, x) # index_props (Suc i) xs"

fun spread :: "jsval \<Rightarrow> (string \<times> jsval) list" where
  "spread (JObj kvs) = kvs"
| "spread (JArr xs) = index_props 0 xs"
| "spread (JStr s) = index_props 0 (map (\<lambda>c. JStr [c]) s)"
| "spread v = []"

section \<open>The client: \<^verbatim>\<open>src/Requests.js\<close>\<close>

text \<open>The object that \<^verbatim>\<open>Requests\<close> constructs: \<^verbatim>\<open>this.url\<close> and \<^verbatim>\<open>this.headers\<close>.\<close>

record header_obj =
  Content_Type :: jsval
  x_api_key :: jsval

record config =
  url :: jsval
  headers :: header_obj

text \<open>The first argument of \<^verbatim>\<open>LokiRequest\<close>; route and method are string literals at
  every call.\<close>

record routeInfo =
  ri_route :: string
  ri_method :: string
  ri_id :: jsval

text \<open>The \<^verbatim>\<open>payload\<close> handed to \<^verbatim>\<open>fetch\<close>.\<close>

record payload =
  p_url :: string
  p_method :: string
  p_headers :: header_obj
  p_body :: jsval

text \<open>
  The network is a parameter: \<^verbatim>\<open>(await fetch(self.url + route, payload)).json()\<close> either
  rejects or gives the parsed body of the response.
\<close>

type_synonym transport = "payload \<Rightarrow> js_error + jsval"

text \<open>What a call does: the requests it hands to the transport, in order, and how its
  promise settles (\<open>Inl\<close> rejected, \<open>Inr\<close> resolved).\<close>

record outcome =
  sent :: "payload list"
  result :: "js_error + jsval"

definition throw :: "js_error \<Rightarrow> outcome" where
  "throw e = \<lparr>sent = [], result = Inl e\<rparr>"

text \<open>A property read followed by the rest of the function body; the read can throw.\<close>

definition read_prop :: "jsval \<Rightarrow> string \<Rightarrow> (jsval \<Rightarrow> outcome) \<Rightarrow> outcome" where
  "read_prop obj k rest = (case get_prop obj k of Inl e \<Rightarrow> throw e | Inr v \<Rightarrow> rest v)"

text \<open>\<^verbatim>\<open>LokiRequest\<close> (lines 30 to 54). The \<^verbatim>\<open>catch\<close> rethrows what it caught.\<close>

definition LokiRequest :: "transport \<Rightarrow> routeInfo \<Rightarrow> jsval \<Rightarrow> config \<Rightarrow> outcome" where
  "LokiRequest fetch routeInfo params self =
     (let route = ri_route routeInfo;
          body = JObj [(''jsonrpc'', JStr ''2.0''),
                       (''id'', js_or (ri_id routeInfo) (JStr ''1'')),
                       (''method'', JStr (ri_method routeInfo)),
                       (''params'', JArr [JObj (spread params)])];
          payload = \<lparr>p_url = js_plus (url self) route, p_method = ''POST'',
                     p_headers = headers self, p_body = JSON_stringify body\<rparr>
      in case fetch payload of
           Inl err \<Rightarrow> \<lparr>sent = [payload], result = Inl err\<rparr>
         | Inr response \<Rightarrow>
             (case get_prop response ''error'' of
                Inl err \<Rightarrow> \<lparr>sent = [payload], result = Inl err\<rparr>
              | Inr e \<Rightarrow>
                  if truthy e then \<lparr>sent = [payload], result = Inl (Thrown response)\<rparr>
                  else \<lparr>sent = [payload], result = Inr response\<rparr>))"

text \<open>The constructor (lines 62 to 68) and the two setters (lines 71 to 77).\<close>

definition Requests :: "jsval \<Rightarrow> jsval \<Rightarrow> config" where
  "Requests url0 apiKey0 =
     (let url = default_param url0 (JStr ''http://localhost:9085/'');
          apiKey = default_param apiKey0 (JStr ''topl_the_world!'')
      in \<lparr>url = url,
          headers = \<lparr>Content_Type = JStr ''application/json'', x_api_key = apiKey\<rparr>\<rparr>)"

definition setUrl :: "jsval \<Rightarrow> config \<Rightarrow> config" where
  "setUrl u self = self\<lparr>url := u\<rparr>"

definition setApiKey :: "jsval \<Rightarrow> config \<Rightarrow> config" where
  "setApiKey apiKey self = self\<lparr>headers := (headers self)\<lparr>x_api_key := apiKey\<rparr>\<rparr>"

subsection \<open>The operations\<close>

text \<open>
  Each is an \<^verbatim>\<open>async function\<close>: what it throws rejects its promise. \<open>id0\<close> is the
  argument as passed, \<^verbatim>\<open>undefined\<close> when omitted; \<open>id\<close> is the parameter after its
  default \<^verbatim>\<open>"1"\<close>.
\<close>

definition getBalancesByKey :: "transport \<Rightarrow> config \<Rightarrow> jsval \<Rightarrow> jsval \<Rightarrow> outcome" where
  "getBalancesByKey fetch self params id0 =
     (let id = default_param id0 (JStr ''1'') in
      read_prop params ''publicKeys'' (\<lambda>publicKeys.
      if \<not> truthy publicKeys \<or> \<not> isArray publicKeys
      then throw (Error ''A list of publicKeys must be specified'')
      else let route = ''wallet/''; method = ''balances'' in
        LokiRequest fetch \<lparr>ri_route = route, ri_method = method, ri_id = id\<rparr> params self))"

definition listOpenKeyfiles :: "transport \<Rightarrow> config \<Rightarrow> jsval \<Rightarrow> outcome" where
  "listOpenKeyfiles fetch self id0 =
     (let id = default_param id0 (JStr ''1'');
          params = JObj []; route = ''wallet/''; method = ''listOpenKeyfiles'' in
        LokiRequest fetch \<lparr>ri_route = route, ri_method = method, ri_id = id\<rparr> params self)"

definition generateKeyfile :: "transport \<Rightarrow> config \<Rightarrow> jsval \<Rightarrow> jsval \<Rightarrow> outcome" where
  "generateKeyfile fetch self params id0 =
     (let id = default_param id0 (JStr ''1'') in
      if \<not> truthy params then throw (Error ''A parameter object must be specified'')
      else read_prop params ''password'' (\<lambda>password.
      if \<not> truthy password then throw (Error ''A password must be provided to encrypt the keyfile'')
      else let route = ''wallet/''; method = ''generateKeyfile'' in
        LokiRequest fetch \<lparr>ri_route = route, ri_method = method, ri_id = id\<rparr> params self))"

definition lockKeyfile :: "transport \<Rightarrow> config \<Rightarrow> jsval \<Rightarrow> jsval \<Rightarrow> outcome" where
  "lockKeyfile fetch self params id0 =
     (let id = default_param id0 (JStr ''1'') in
      if \<not> truthy params then throw (Error ''A parameter object must be specified'')
      else read_prop params ''publicKey'' (\<lambda>publicKey.
      if \<not> truthy publicKey then throw (Error ''A publicKey field must be specified'')
      else read_prop params ''password'' (\<lambda>password.
      if \<not> truthy password then throw (Error ''A password must be provided to encrypt the keyfile'')
      else let route = ''wallet/''; method = ''lockKeyfile'' in
        LokiRequest fetch \<lparr>ri_route = route, ri_method = method, ri_id = id\<rparr> params self)))"

definition unlockKeyfile :: "transport \<Rightarrow> config \<Rightarrow> jsval \<Rightarrow> jsval \<Rightarrow> outcome" where
  "unlockKeyfile fetch self params id0 =
     (let id = default_param id0 (JStr ''1'') in
      if \<not> truthy params then throw (Error ''A parameter object must be specified'')
      else read_prop params ''publicKey'' (\<lambda>publicKey.
      if \<not> truthy publicKey then throw (Error ''A publicKey field must be specified'')
      else read_prop params ''password'' (\<lambda>password.
      if \<not> truthy password then throw (Error ''A password must be provided to encrypt the keyfile'')
      else let route = ''wallet/''; method = ''unlockKeyfile'' in
        LokiRequest fetch \<lparr>ri_route = route, ri_method = method, ri_id = id\<rparr> params self)))"

definition signTransaction :: "transport \<Rightarrow> config \<Rightarrow> jsval \<Rightarrow> jsval \<Rightarrow> outcome" where
  "signTransaction fetch self params id0 =
     (let id = default_param id0 (JStr ''1'') in
      if \<not> truthy params then throw (Error ''A parameter object must be specified'')
      else read_prop params ''publicKey'' (\<lambda>publicKey.
      if \<not> truthy publicKey then throw (Error ''A publicKey field must be specified'')
      else read_prop params ''tx'' (\<lambda>tx.
      if \<not> truthy tx then throw (Error ''A tx object must be specified'')
      else let route = ''wallet/''; method = ''signTx'' in
        LokiRequest fetch \<lparr>ri_route = route, ri_method = method, ri_id = id\<rparr> params self)))"

definition broadcastTx :: "transport \<Rightarrow> config \<Rightarrow> jsval \<Rightarrow> jsval \<Rightarrow> outcome" where
  "broadcastTx fetch self params id0 =
     (let id = default_param id0 (JStr ''1'') in
      if \<not> truthy params then throw (Error ''A parameter object must be specified'')
      else read_prop params ''tx'' (\<lambda>tx.
      if \<not> truthy tx then throw (Error ''A tx object must be specified'')
      else let route = ''wallet/''; method = ''broadcastTx'' in
        LokiRequest fetch \<lparr>ri_route = route, ri_method = method, ri_id = id\<rparr> params self))"

definition transferPolys :: "transport \<Rightarrow> config \<Rightarrow> jsval \<Rightarrow> jsval \<Rightarrow> outcome" where
  "transferPolys fetch self params id0 =
     (let id = default_param id0 (JStr ''1'') in
      if \<not> truthy params then throw (Error ''A parameter object must be specified'')
      else read_prop params ''recipient'' (\<lambda>recipient.
      if \<not> truthy recipient then throw (Error ''A recipient must be specified'')
      else read_prop params ''amount'' (\<lambda>amount.
      if \<not> truthy amount then throw (Error ''An amount must be specified'')
      else read_prop params ''fee'' (\<lambda>fee.
      if \<not> truthy fee \<and> fee \<noteq> JNum 0 then throw (Error ''A fee must be specified'')
      else let route = ''wallet/''; method = ''transferPolys'' in
        LokiRequest fetch \<lparr>ri_route = route, ri_method = method, ri_id = id\<rparr> params self))))"

definition transferArbits :: "transport \<Rightarrow> config \<Rightarrow> jsval \<Rightarrow> jsval \<Rightarrow> outcome" where
  "transferArbits fetch self params id0 =
     (let id = default_param id0 (JStr ''1'') in
      if \<not> truthy params then throw (Error ''A parameter object must be specified'')
      else read_prop params ''recipient'' (\<lambda>recipient.
      if \<not> truthy recipient then throw (Error ''A recipient must be specified'')
      else read_prop params ''amount'' (\<lambda>amount.
      if \<not> truthy amount then throw (Error ''An amount must be specified'')
      else read_prop params ''fee'' (\<lambda>fee.
      if \<not> truthy fee \<and> fee \<noteq> JNum 0 then throw (Error ''A fee must be specified'')
      else let route = ''wallet/''; method = ''transferArbits'' in
        LokiRequest fetch \<lparr>ri_route = route, ri_method = method, ri_id = id\<rparr> params self))))"

definition createAssets :: "transport \<Rightarrow> config \<Rightarrow> jsval \<Rightarrow> jsval \<Rightarrow> outcome" where
  "createAssets fetch self params id0 =
     (let id = default_param id0 (JStr ''1'') in
      if \<not> truthy params then throw (Error ''A parameter object must be specified'')
      else read_prop params ''issuer'' (\<lambda>issuer.
      if \<not> truthy issuer then throw (Error ''An asset issuer must be specified'')
      else read_prop params ''assetCode'' (\<lambda>assetCode.
      if \<not> truthy assetCode then throw (Error ''An assetCode must be specified'')
      else read_prop params ''recipient'' (\<lambda>recipient.
      if \<not> truthy recipient then throw (Error ''A recipient must be specified'')
      else read_prop params ''amount'' (\<lambda>amount.
      if \<not> truthy amount then throw (Error ''An amount must be specified'')
      else read_prop params ''fee'' (\<lambda>fee.
      if \<not> truthy fee \<and> fee \<noteq> JNum 0 then throw (Error ''A fee must be specified'')
      else let route = ''asset/''; method = ''createAssets'' in
        LokiRequest fetch \<lparr>ri_route = route, ri_method = method, ri_id = id\<rparr> params self))))))"

definition createAssetsPrototype :: "transport \<Rightarrow> config \<Rightarrow> jsval \<Rightarrow> jsval \<Rightarrow> outcome" where
  "createAssetsPrototype fetch self params id0 =
     (let id = default_param id0 (JStr ''1'') in
      if \<not> truthy params then throw (Error ''A parameter object must be specified'')
      else read_prop params ''issuer'' (\<lambda>issuer.
      if \<not> truthy issuer then throw (Error ''An asset issuer must be specified'')
      else read_prop params ''assetCode'' (\<lambda>assetCode.
      if \<not> truthy assetCode then throw (Error ''An assetCode must be specified'')
      else read_prop params ''recipient'' (\<lambda>recipient.
      if \<not> truthy recipient then throw (Error ''A recipient must be specified'')
      else read_prop params ''amount'' (\<lambda>amount.
      if \<not> truthy amount then throw (Error ''An amount must be specified'')
      else read_prop params ''fee'' (\<lambda>fee.
      if \<not> truthy fee \<and> fee \<noteq> JNum 0 then throw (Error ''A fee must be specified'')
      else let route = ''asset/''; method = ''createAssetsPrototype'' in
        LokiRequest fetch \<lparr>ri_route = route, ri_method = method, ri_id = id\<rparr> params self))))))"

definition transferAssets :: "transport \<Rightarrow> config \<Rightarrow> jsval \<Rightarrow> jsval \<Rightarrow> outcome" where
  "transferAssets fetch self params id0 =
     (let id = default_param id0 (JStr ''1'') in
      if \<not> truthy params then throw (Error ''A parameter object must be specified'')
      else read_prop params ''issuer'' (\<lambda>issuer.
      if \<not> truthy issuer then throw (Error ''An asset issuer must be specified'')
      else read_prop params ''assetCode'' (\<lambda>assetCode.
      if \<not> truthy assetCode then throw (Error ''An assetCode must be specified'')
      else read_prop params ''recipient'' (\<lambda>recipient.
      if \<not> truthy recipient then throw (Error ''A recipient must be specified'')
      else read_prop params ''amount'' (\<lambda>amount.
      if \<not> truthy amount then throw (Error ''An amount must be specified'')
      else read_prop params ''fee'' (\<lambda>fee.
      if \<not> truthy fee \<and> fee \<noteq> JNum 0 then throw (Error ''A fee must be specified'')
      else let route = ''asset/''; method = ''transferAssets'' in
        LokiRequest fetch \<lparr>ri_route = route, ri_method = method, ri_id = id\<rparr> params self))))))"

definition transferAssetsPrototype :: "transport \<Rightarrow> config \<Rightarrow> jsval \<Rightarrow> jsval \<Rightarrow> outcome" where
  "transferAssetsPrototype fetch self params id0 =
     (let id = default_param id0 (JStr ''1'') in
      if \<not> truthy params then throw (Error ''A parameter object must be specified'')
      else read_prop params ''issuer'' (\<lambda>issuer.
      if \<not> truthy issuer then throw (Error ''An asset issuer must be specified'')
      else read_prop params ''assetCode'' (\<lambda>assetCode.
      if \<not> truthy assetCode then throw (Error ''An assetCode must be specified'')
      else read_prop params ''recipient'' (\<lambda>recipient.
      if \<not> truthy recipient then throw (Error ''A recipient must be specified'')
      else read_prop params ''sender'' (\<lambda>sender.
      if \<not> truthy sender then throw (Error ''A sender must be specified'')
      else read_prop params ''amount'' (\<lambda>amount.
      if \<not> truthy amount then throw (Error ''An amount must be specified'')
      else read_prop params ''fee'' (\<lambda>fee.
      if \<not> truthy fee \<and> fee \<noteq> JNum 0 then throw (Error ''A fee must be specified'')
      else let route = ''asset/''; method = ''transferAssetsPrototype'' in
        LokiRequest fetch \<lparr>ri_route = route, ri_method = method, ri_id = id\<rparr> params self)))))))"

definition transferTargetAssets :: "transport \<Rightarrow> config \<Rightarrow> jsval \<Rightarrow> jsval \<Rightarrow> outcome" where
  "transferTargetAssets fetch self params id0 =
     (let id = default_param id0 (JStr ''1'') in
      if \<not> truthy params then throw (Error ''A parameter object must be specified'')
      else read_prop params ''recipient'' (\<lambda>recipient.
      if \<not> truthy recipient then throw (Error ''A recipient must be specified'')
      else read_prop params ''assetId'' (\<lambda>assetId.
      if \<not> truthy assetId then throw (Error ''An assetId is required for this request'')
      else read_prop params ''amount'' (\<lambda>amount.
      if \<not> truthy amount then throw (Error ''An amount must be specified'')
      else read_prop params ''fee'' (\<lambda>fee.
      if \<not> truthy fee \<and> fee \<noteq> JNum 0 then throw (Error ''A fee must be specified'')
      else let route = ''asset/''; method = ''transferTargetAssets'' in
        LokiRequest fetch \<lparr>ri_route = route, ri_method = method, ri_id = id\<rparr> params self)))))"

definition transferTargetAssetsPrototype :: "transport \<Rightarrow> config \<Rightarrow> jsval \<Rightarrow> jsval \<Rightarrow> outcome" where
  "transferTargetAssetsPrototype fetch self params id0 =
     (let id = default_param id0 (JStr ''1'') in
      if \<not> truthy params then throw (Error ''A parameter object must be specified'')
      else read_prop params ''recipient'' (\<lambda>recipient.
      if \<not> truthy recipient then throw (Error ''A recipient must be specified'')
      else read_prop params ''sender'' (\<lambda>sender.
      if \<not> truthy sender then throw (Error ''A sender must be specified'')
      else read_prop params ''assetId'' (\<lambda>assetId.
      if \<not> truthy assetId then throw (Error ''An assetId is required for this request'')
      else read_prop params ''amount'' (\<lambda>amount.
      if \<not> truthy amount then throw (Error ''An amount must be specified'')
      else read_prop params ''fee'' (\<lambda>fee.
      if \<not> truthy fee \<and> fee \<noteq> JNum 0 then throw (Error ''A fee must be specified'')
      else let route = ''asset/''; method = ''transferTargetAssetsPrototype'' in
        LokiRequest fetch \<lparr>ri_route = route, ri_method = method, ri_id = id\<rparr> params self))))))"

definition getTransactionById :: "transport \<Rightarrow> config \<Rightarrow> jsval \<Rightarrow> jsval \<Rightarrow> outcome" where
  "getTransactionById fetch self params id0 =
     (let id = default_param id0 (JStr ''1'') in
      if \<not> truthy params then throw (Error ''A parameter object must be specified'')
      else read_prop params ''transactionId'' (\<lambda>transactionId.
      if \<not> truthy transactionId then throw (Error ''A transactionId must be specified'')
      else let route = ''nodeView/''; method = ''transactionById'' in
        LokiRequest fetch \<lparr>ri_route = route, ri_method = method, ri_id = id\<rparr> params self))"

definition getTransactionFromMempool :: "transport \<Rightarrow> config \<Rightarrow> jsval \<Rightarrow> jsval \<Rightarrow> outcome" where
  "getTransactionFromMempool fetch self params id0 =
     (let id = default_param id0 (JStr ''1'') in
      if \<not> truthy params then throw (Error ''A parameter object must be specified'')
      else read_prop params ''transactionId'' (\<lambda>transactionId.
      if \<not> truthy transactionId then throw (Error ''A transactionId must be specified'')
      else let route = ''nodeView/''; method = ''transactionFromMempool'' in
        LokiRequest fetch \<lparr>ri_route = route, ri_method = method, ri_id = id\<rparr> params self))"

definition getMempool :: "transport \<Rightarrow> config \<Rightarrow> jsval \<Rightarrow> outcome" where
  "getMempool fetch self id0 =
     (let id = default_param id0 (JStr ''1'');
          params = JObj []; route = ''nodeView/''; method = ''mempool'' in
        LokiRequest fetch \<lparr>ri_route = route, ri_method = method, ri_id = id\<rparr> params self)"

definition getBlockById :: "transport \<Rightarrow> config \<Rightarrow> jsval \<Rightarrow> jsval \<Rightarrow> outcome" where
  "getBlockById fetch self params id0 =
     (let id = default_param id0 (JStr ''1'') in
      if \<not> truthy params then throw (Error ''A parameter object must be specified'')
      else read_prop params ''blockId'' (\<lambda>blockId.
      if \<not> truthy blockId then throw (Error ''A blockId must be specified'')
      else let route = ''nodeView/''; method = ''blockById'' in
        LokiRequest fetch \<lparr>ri_route = route, ri_method = method, ri_id = id\<rparr> params self))"

definition chainInfo :: "transport \<Rightarrow> config \<Rightarrow> jsval \<Rightarrow> outcome" where
  "chainInfo fetch self id0 =
     (let id = default_param id0 (JStr ''1'');
          params = JObj []; route = ''debug/''; method = ''info'' in
        LokiRequest fetch \<lparr>ri_route = route, ri_method = method, ri_id = id\<rparr> params self)"

text \<open>
  \<^verbatim>\<open>calcDelay\<close> (lines 491 to 498) declares the one parameter \<^verbatim>\<open>id\<close>, and no scope of
  the module binds \<^verbatim>\<open>params\<close> (nor does the global object of Node define it): evaluating
  \<^verbatim>\<open>!params\<close> throws a ReferenceError, whatever the arguments.
\<close>

definition calcDelay :: "transport \<Rightarrow> config \<Rightarrow> jsval \<Rightarrow> outcome" where
  "calcDelay fetch self id0 =
     (let id = default_param id0 (JStr ''1'') in
      throw (ReferenceError ''params is not defined''))"

definition myBlocks :: "transport \<Rightarrow> config \<Rightarrow> jsval \<Rightarrow> outcome" where
  "myBlocks fetch self id0 =
     (let id = default_param id0 (JStr ''1'');
          params = JObj []; route = ''debug/''; method = ''myBlocks'' in
        LokiRequest fetch \<lparr>ri_route = route, ri_method = method, ri_id = id\<rparr> params self)"

definition blockGenerators :: "transport \<Rightarrow> config \<Rightarrow> jsval \<Rightarrow> outcome" where
  "blockGenerators fetch self id0 =
     (let id = default_param id0 (JStr ''1'');
          params = JObj []; route = ''debug/''; method = ''generators'' in
        LokiRequest fetch \<lparr>ri_route = route, ri_method = method, ri_id = id\<rparr> params self)"

definition printChain :: "transport \<Rightarrow> config \<Rightarrow> jsval \<Rightarrow> outcome" where
  "printChain fetch self id0 =
     (let id = default_param id0 (JStr ''1'');
          params = JObj []; route = ''debug/''; method = ''chain'' in
        LokiRequest fetch \<lparr>ri_route = route, ri_method = method, ri_id = id\<rparr> params self)"

subsection \<open>Calling a method of the client\<close>

text \<open>The methods that the module puts on \<^verbatim>\<open>Requests.prototype\<close>, in source order.\<close>

datatype operation =
    GetBalancesByKey
  | ListOpenKeyfiles
  | GenerateKeyfile
  | LockKeyfile
  | UnlockKeyfile
  | SignTransaction
  | BroadcastTx
  | TransferPolys
  | TransferArbits
  | CreateAssets
  | CreateAssetsPrototype
  | TransferAssets
  | TransferAssetsPrototype
  | TransferTargetAssets
  | TransferTargetAssetsPrototype
  | GetTransactionById
  | GetTransactionFromMempool
  | GetMempool
  | GetBlockById
  | ChainInfo
  | CalcDelay
  | MyBlocks
  | BlockGenerators
  | PrintChain

text \<open>The \<open>n\<close>-th argument of a call; a missing argument is \<^verbatim>\<open>undefined\<close>.\<close>

definition arg :: "nat \<Rightarrow> jsval list \<Rightarrow> jsval" where
  "arg n args = (if n < length args then args ! n else JUndefined)"

text \<open>The call \<^verbatim>\<open>self.op(...args)\<close>: arguments bind to the declared parameters by
  position, so the first argument of a method declared with \<^verbatim>\<open>(id = "1")\<close> alone is
  its \<^verbatim>\<open>id\<close>.\<close>

fun call :: "transport \<Rightarrow> config \<Rightarrow> operation \<Rightarrow> jsval list \<Rightarrow> outcome" where
  "call fetch self GetBalancesByKey args = getBalancesByKey fetch self (arg 0 args) (arg 1 args)"
| "call fetch self ListOpenKeyfiles args = listOpenKeyfiles fetch self (arg 0 args)"
| "call fetch self GenerateKeyfile args = generateKeyfile fetch self (arg 0 args) (arg 1 args)"
| "call fetch self LockKeyfile args = lockKeyfile fetch self (arg 0 args) (arg 1 args)"
| "call fetch self UnlockKeyfile args = unlockKeyfile fetch self (arg 0 args) (arg 1 args)"
| "call fetch self SignTransaction args = signTransaction fetch self (arg 0 args) (arg 1 args)"
| "call fetch self BroadcastTx args = broadcastTx fetch self (arg 0 args) (arg 1 args)"
| "call fetch self TransferPolys args = transferPolys fetch self (arg 0 args) (arg 1 args)"
| "call fetch self TransferArbits args = transferArbits fetch self (arg 0 args) (arg 1 args)"
| "call fetch self CreateAssets args = createAssets fetch self (arg 0 args) (arg 1 args)"
| "call fetch self CreateAssetsPrototype args = createAssetsPrototype fetch self (arg 0 args) (arg 1 args)"
| "call fetch self TransferAssets args = transferAssets fetch self (arg 0 args) (arg 1 args)"
| "call fetch self TransferAssetsPrototype args = transferAssetsPrototype fetch self (arg 0 args) (arg 1 args)"
| "call fetch self TransferTargetAssets args = transferTargetAssets fetch self (arg 0 args) (arg 1 args)"
| "call fetch self TransferTargetAssetsPrototype args = transferTargetAssetsPrototype fetch self (arg 0 args) (arg 1 args)"
| "call fetch self GetTransactionById args = getTransactionById fetch self (arg 0 args) (arg 1 args)"
| "call fetch self GetTransactionFromMempool args = getTransactionFromMempool fetch self (arg 0 args) (arg 1 args)"
| "call fetch self GetMempool args = getMempool fetch self (arg 0 args)"
| "call fetch self GetBlockById args = getBlockById fetch self (arg 0 args) (arg 1 args)"
| "call fetch self ChainInfo args = chainInfo fetch self (arg 0 args)"
| "call fetch self CalcDelay args = calcDelay fetch self (arg 0 args)"
| "call fetch self MyBlocks args = myBlocks fetch self (arg 0 args)"
| "call fetch self BlockGenerators args = blockGenerators fetch self (arg 0 args)"
| "call fetch self PrintChain args = printChain fetch self (arg 0 args)"

section \<open>What the specification says of each operation\<close>

text \<open>The table of section 4.2 of the specification: route, method, and whether the
  operation takes a parameter object.\<close>

fun route_of :: "operation \<Rightarrow> string" where
  "route_of GetBalancesByKey = ''wallet/''"
| "route_of ListOpenKeyfiles = ''wallet/''"
| "route_of GenerateKeyfile = ''wallet/''"
| "route_of LockKeyfile = ''wallet/''"
| "route_of UnlockKeyfile = ''wallet/''"
| "route_of SignTransaction = ''wallet/''"
| "route_of BroadcastTx = ''wallet/''"
| "route_of TransferPolys = ''wallet/''"
| "route_of TransferArbits = ''wallet/''"
| "route_of CreateAssets = ''asset/''"
| "route_of CreateAssetsPrototype = ''asset/''"
| "route_of TransferAssets = ''asset/''"
| "route_of TransferAssetsPrototype = ''asset/''"
| "route_of TransferTargetAssets = ''asset/''"
| "route_of TransferTargetAssetsPrototype = ''asset/''"
| "route_of GetTransactionById = ''nodeView/''"
| "route_of GetTransactionFromMempool = ''nodeView/''"
| "route_of GetMempool = ''nodeView/''"
| "route_of GetBlockById = ''nodeView/''"
| "route_of ChainInfo = ''debug/''"
| "route_of CalcDelay = ''debug/''"
| "route_of MyBlocks = ''debug/''"
| "route_of BlockGenerators = ''debug/''"
| "route_of PrintChain = ''debug/''"

fun method_of :: "operation \<Rightarrow> string" where
  "method_of GetBalancesByKey = ''balances''"
| "method_of ListOpenKeyfiles = ''listOpenKeyfiles''"
| "method_of GenerateKeyfile = ''generateKeyfile''"
| "method_of LockKeyfile = ''lockKeyfile''"
| "method_of UnlockKeyfile = ''unlockKeyfile''"
| "method_of SignTransaction = ''signTx''"
| "method_of BroadcastTx = ''broadcastTx''"
| "method_of TransferPolys = ''transferPolys''"
| "method_of TransferArbits = ''transferArbits''"
| "method_of CreateAssets = ''createAssets''"
| "method_of CreateAssetsPrototype = ''createAssetsPrototype''"
| "method_of TransferAssets = ''transferAssets''"
| "method_of TransferAssetsPrototype = ''transferAssetsPrototype''"
| "method_of TransferTargetAssets = ''transferTargetAssets''"
| "method_of TransferTargetAssetsPrototype = ''transferTargetAssetsPrototype''"
| "method_of GetTransactionById = ''transactionById''"
| "method_of GetTransactionFromMempool = ''transactionFromMempool''"
| "method_of GetMempool = ''mempool''"
| "method_of GetBlockById = ''blockById''"
| "method_of ChainInfo = ''info''"
| "method_of CalcDelay = ''delay''"
| "method_of MyBlocks = ''myBlocks''"
| "method_of BlockGenerators = ''generators''"
| "method_of PrintChain = ''chain''"

text \<open>The operations that skip validation and pass an empty object.\<close>

fun no_param_op :: "operation \<Rightarrow> bool" where
  "no_param_op ListOpenKeyfiles = True"
| "no_param_op GetMempool = True"
| "no_param_op ChainInfo = True"
| "no_param_op MyBlocks = True"
| "no_param_op BlockGenerators = True"
| "no_param_op PrintChain = True"
| "no_param_op op = False"

text \<open>The parameter object and the id of a call, by the documented signature
  \<^verbatim>\<open>operation(params?, id?)\<close>: a no-parameter operation has the id as its only argument.\<close>

definition params_of :: "operation \<Rightarrow> jsval list \<Rightarrow> jsval" where
  "params_of op args = (if no_param_op op then JObj [] else arg 0 args)"

definition id_of :: "operation \<Rightarrow> jsval list \<Rightarrow> jsval" where
  "id_of op args = (if no_param_op op then arg 0 args else arg 1 args)"

text \<open>The envelope of section 3, as a value: \<open>i\<close> is its id, \<open>m\<close> its method, \<open>p\<close> the
  sole element of its \<^verbatim>\<open>params\<close>.\<close>

definition envelope :: "jsval \<Rightarrow> string \<Rightarrow> jsval \<Rightarrow> jsval" where
  "envelope i m p =
     JObj [(''jsonrpc'', JStr ''2.0''), (''id'', i), (''method'', JStr m), (''params'', JArr [p])]"

text \<open>The argument of \<^verbatim>\<open>LokiRequest\<close> that the table and the call determine.\<close>

definition route_info :: "operation \<Rightarrow> jsval list \<Rightarrow> routeInfo" where
  "route_info op args =
     \<lparr>ri_route = route_of op, ri_method = method_of op,
      ri_id = default_param (id_of op args) (JStr ''1'')\<rparr>"

text \<open>The id of the envelope: the caller's id, \<^verbatim>\<open>"1"\<close> in its place when it is falsy.\<close>

definition envelope_id :: "jsval \<Rightarrow> jsval" where
  "envelope_id i = (if truthy i then i else JStr ''1'')"

text \<open>The request of section 6: a POST of the serialised envelope to the base url followed
  by the route, with the configured headers.\<close>

definition request_of :: "config \<Rightarrow> operation \<Rightarrow> jsval list \<Rightarrow> payload" where
  "request_of self op args =
     \<lparr>p_url = js_plus (url self) (route_of op), p_method = ''POST'', p_headers = headers self,
      p_body = JSON_stringify
                 (envelope (envelope_id (id_of op args)) (method_of op) (params_of op args))\<rparr>"

text \<open>The required fields of section 4.2, in declared order. The table gives \<^verbatim>\<open>sender\<close> of
  the two prototype transfers no position; it stands where the source checks it.\<close>

fun required_fields :: "operation \<Rightarrow> string list" where
  "required_fields GetBalancesByKey = [''publicKeys'']"
| "required_fields GenerateKeyfile = [''password'']"
| "required_fields LockKeyfile = [''publicKey'', ''password'']"
| "required_fields UnlockKeyfile = [''publicKey'', ''password'']"
| "required_fields SignTransaction = [''publicKey'', ''tx'']"
| "required_fields BroadcastTx = [''tx'']"
| "required_fields TransferPolys = [''recipient'', ''amount'', ''fee'']"
| "required_fields TransferArbits = [''recipient'', ''amount'', ''fee'']"
| "required_fields CreateAssets = [''issuer'', ''assetCode'', ''recipient'', ''amount'', ''fee'']"
| "required_fields CreateAssetsPrototype =
     [''issuer'', ''assetCode'', ''recipient'', ''amount'', ''fee'']"
| "required_fields TransferAssets = [''issuer'', ''assetCode'', ''recipient'', ''amount'', ''fee'']"
| "required_fields TransferAssetsPrototype =
     [''issuer'', ''assetCode'', ''recipient'', ''sender'', ''amount'', ''fee'']"
| "required_fields TransferTargetAssets = [''recipient'', ''assetId'', ''amount'', ''fee'']"
| "required_fields TransferTargetAssetsPrototype =
     [''recipient'', ''sender'', ''assetId'', ''amount'', ''fee'']"
| "required_fields GetTransactionById = [''transactionId'']"
| "required_fields GetTransactionFromMempool = [''transactionId'']"
| "required_fields GetBlockById = [''blockId'']"
| "required_fields CalcDelay = [''blockId'', ''numBlocks'']"
| "required_fields op = []"

text \<open>The value of a field of a parameter object; \<^verbatim>\<open>undefined\<close> when there is no such
  field, or no object.\<close>

definition field :: "jsval \<Rightarrow> string \<Rightarrow> jsval" where
  "field p k = (case get_prop p k of Inl err \<Rightarrow> JUndefined | Inr v \<Rightarrow> v)"

text \<open>Step 2 of the validation policy: a falsy value counts as absent, except the literal
  \<^verbatim>\<open>0\<close> of \<^verbatim>\<open>fee\<close>; \<^verbatim>\<open>publicKeys\<close> is required to be an array.\<close>

definition absent :: "string \<Rightarrow> jsval \<Rightarrow> bool" where
  "absent k v =
     (if k = ''fee'' then \<not> truthy v \<and> v \<noteq> JNum 0
      else if k = ''publicKeys'' then \<not> (truthy v \<and> isArray v)
      else \<not> truthy v)"

text \<open>The message of the error that names a field, as the source words it.\<close>

definition message_of :: "string \<Rightarrow> string" where
  "message_of k =
     (if k = ''publicKeys'' then ''A list of publicKeys must be specified''
      else if k = ''password'' then ''A password must be provided to encrypt the keyfile''
      else if k = ''publicKey'' then ''A publicKey field must be specified''
      else if k = ''tx'' then ''A tx object must be specified''
      else if k = ''recipient'' then ''A recipient must be specified''
      else if k = ''amount'' then ''An amount must be specified''
      else if k = ''fee'' then ''A fee must be specified''
      else if k = ''issuer'' then ''An asset issuer must be specified''
      else if k = ''assetCode'' then ''An assetCode must be specified''
      else if k = ''sender'' then ''A sender must be specified''
      else if k = ''assetId'' then ''An assetId is required for this request''
      else if k = ''transactionId'' then ''A transactionId must be specified''
      else if k = ''blockId'' then ''A blockId must be specified''
      else if k = ''numBlocks'' then ''A number of blocks must be specified''
      else [])"

text \<open>The validation policy of section 4.2 on a parameter object: the error of the first
  violation, \<open>None\<close> when there is none.\<close>

definition validation_policy :: "operation \<Rightarrow> jsval \<Rightarrow> js_error option" where
  "validation_policy op p =
     (if no_param_op op then None
      else if \<not> truthy p then Some (Error ''A parameter object must be specified'')
      else case find (\<lambda>k. absent k (field p k)) (required_fields op) of
             Some k \<Rightarrow> Some (Error (message_of k))
           | None \<Rightarrow> None)"

text \<open>How a call was refused before anything was sent: the error, \<open>None\<close> when a request
  went out.\<close>

definition rejected_with :: "outcome \<Rightarrow> js_error option" where
  "rejected_with out =
     (if sent out = [] then (case result out of Inl e \<Rightarrow> Some e | Inr v \<Rightarrow> None) else None)"

text \<open>A parsed body that contains a field \<open>k\<close>.\<close>

definition has_field :: "jsval \<Rightarrow> string \<Rightarrow> bool" where
  "has_field v k = (case v of JObj kvs \<Rightarrow> k \<in> set (map fst kvs) | _ \<Rightarrow> False)"

text \<open>Two values that no test of truthiness, and no comparison with the literal \<^verbatim>\<open>0\<close>,
  tells apart; two parameter objects whose required fields are such.\<close>

definition same_truthiness :: "jsval \<Rightarrow> jsval \<Rightarrow> bool" where
  "same_truthiness v w = (truthy v = truthy w \<and> (v = JNum 0) = (w = JNum 0))"

definition same_truthiness_params :: "operation \<Rightarrow> jsval \<Rightarrow> jsval \<Rightarrow> bool" where
  "same_truthiness_params op p q =
     (truthy p = truthy q \<and>
      list_all (\<lambda>k. same_truthiness (field p k) (field q k)) (required_fields op))"

text \<open>The operations whose \<^verbatim>\<open>fee\<close> may be the literal \<^verbatim>\<open>0\<close>.\<close>

definition fee_operations :: "operation list" where
  "fee_operations =
     [TransferPolys, TransferArbits, CreateAssets, CreateAssetsPrototype, TransferAssets,
      TransferAssetsPrototype, TransferTargetAssets, TransferTargetAssetsPrototype]"

lemmas operation_defs =
  getBalancesByKey_def listOpenKeyfiles_def generateKeyfile_def lockKeyfile_def
  unlockKeyfile_def signTransaction_def broadcastTx_def transferPolys_def transferArbits_def
  createAssets_def createAssetsPrototype_def transferAssets_def transferAssetsPrototype_def
  transferTargetAssets_def transferTargetAssetsPrototype_def getTransactionById_def
  getTransactionFromMempool_def getMempool_def getBlockById_def chainInfo_def calcDelay_def
  myBlocks_def blockGenerators_def printChain_def

section \<open>Lemmas on the model\<close>

lemma throw_eq_iff [simp]: "throw a = throw b \<longleftrightarrow> a = b"
  by (simp add: throw_def)

lemma sent_throw [simp]: "sent (throw e) = []"
  by (simp add: throw_def)

lemma result_throw [simp]: "result (throw e) = Inl e"
  by (simp add: throw_def)

lemma read_prop_field:
  "read_prop p k rest = (if p = JUndefined \<or> p = JNull then throw TypeError else rest (field p k))"
  by (cases p) (simp_all add: read_prop_def field_def)

lemma envelope_id_default:
  "js_or (default_param i (JStr ''1'')) (JStr ''1'') = envelope_id i"
  by (cases i) (simp_all add: js_or_def default_param_def envelope_id_def)

lemma LokiRequest_sent:
  "sent (LokiRequest fetch (route_info op args) (JObj kvs) self) =
     [request_of self op (args)]" if "params_of op args = JObj kvs"
  using that
  by (simp add: LokiRequest_def request_of_def envelope_def route_info_def Let_def
      envelope_id_default split: sum.splits)

lemma LokiRequest_result:
  "result (LokiRequest fetch (route_info op args) (JObj kvs) self) =
     (case fetch (request_of self op args) of
        Inl err \<Rightarrow> Inl err
      | Inr response \<Rightarrow>
          (case get_prop response ''error'' of
             Inl err \<Rightarrow> Inl err
           | Inr e \<Rightarrow> if truthy e then Inl (Thrown response) else Inr response))"
  if "params_of op args = JObj kvs"
  using that
  by (simp add: LokiRequest_def request_of_def envelope_def route_info_def Let_def
      envelope_id_default split: sum.splits)

lemma field_truthy_object: "truthy (field p k) \<Longrightarrow> \<exists>kvs. p = JObj kvs"
  by (cases p) (simp_all add: field_def)

lemma call_refines_policy:
  assumes "op \<noteq> CalcDelay" and "op = GetBalancesByKey \<Longrightarrow> truthy (params_of op args)"
  shows "call fetch self op args =
     (case validation_policy op (params_of op args) of
        Some e \<Rightarrow> throw e
      | None \<Rightarrow> LokiRequest fetch (route_info op args) (params_of op args) self)"
  using assms
  by (cases op)
     (auto simp add: operation_defs route_info_def params_of_def id_of_def Let_def
        read_prop_field validation_policy_def absent_def message_of_def)

lemma policy_passes_object:
  "validation_policy op (params_of op args) = None \<Longrightarrow> \<exists>kvs. params_of op args = JObj kvs"
  by (cases op)
     (auto simp add: validation_policy_def params_of_def absent_def
        dest: field_truthy_object split: if_splits)

lemma call_dispatch:
  assumes "sent (call fetch self op args) \<noteq> []"
  shows "\<exists>kvs. params_of op args = JObj kvs \<and>
           call fetch self op args = LokiRequest fetch (route_info op args) (JObj kvs) self"
proof -
  have not_delay: "op \<noteq> CalcDelay"
    using assms by (auto simp add: calcDelay_def)
  have supplied: "truthy (params_of op args)" if "op = GetBalancesByKey"
  proof (rule ccontr)
    assume "\<not> truthy (params_of op args)"
    then have "sent (call fetch self op args) = []"
      using that
      by (cases "arg 0 args")
         (simp_all add: getBalancesByKey_def params_of_def read_prop_field field_def)
    with assms show False by simp
  qed
  have eq: "call fetch self op args =
     (case validation_policy op (params_of op args) of
        Some e \<Rightarrow> throw e
      | None \<Rightarrow> LokiRequest fetch (route_info op args) (params_of op args) self)"
    using not_delay supplied by (rule call_refines_policy)
  have passes: "validation_policy op (params_of op args) = None"
  proof (cases "validation_policy op (params_of op args)")
    case None
    then show ?thesis .
  next
    case (Some e)
    with eq have "sent (call fetch self op args) = []" by simp
    with assms show ?thesis by simp
  qed
  then obtain kvs where "params_of op args = JObj kvs"
    using policy_passes_object by blast
  with eq passes show ?thesis by simp
qed

lemma call_result:
  assumes "sent (call fetch self op args) = [req]"
  shows "result (call fetch self op args) =
     (case fetch req of
        Inl err \<Rightarrow> Inl err
      | Inr response \<Rightarrow>
          (case get_prop response ''error'' of
             Inl err \<Rightarrow> Inl err
           | Inr e \<Rightarrow> if truthy e then Inl (Thrown response) else Inr response))"
proof -
  from assms have "sent (call fetch self op args) \<noteq> []" by simp
  then obtain kvs where p: "params_of op args = JObj kvs"
    and c: "call fetch self op args = LokiRequest fetch (route_info op args) (JObj kvs) self"
    using call_dispatch by blast
  from assms p c have "req = request_of self op args" by (simp add: LokiRequest_sent)
  with p c show ?thesis by (simp add: LokiRequest_result)
qed

lemma no_param_call:
  "no_param_op op \<Longrightarrow>
     call fetch self op args = LokiRequest fetch (route_info op args) (JObj []) self"
  by (cases op) (simp_all add: operation_defs route_info_def id_of_def Let_def)

lemma no_param_sent:
  "no_param_op op \<Longrightarrow> sent (call fetch self op args) = [request_of self op args]"
  by (simp add: no_param_call LokiRequest_sent params_of_def)

section \<open>The response of the node\<close>

text \<open>
  Claim C1, as the code has it. When a call has passed validation and sent its request,
  and the transport gives a parsed body other than \<^verbatim>\<open>null\<close> (so that reading its
  \<^verbatim>\<open>error\<close> property gives a value \<open>e\<close>), the call fails exactly when \<open>e\<close> is truthy; it
  is then rejected with the whole parsed body, which carries the node's error in its
  \<^verbatim>\<open>error\<close> field, and otherwise it resolves with the body as it is.
\<close>

theorem dispatch_fails_iff_error_truthy:
  assumes "sent (call fetch self op args) = [req]"
    and "fetch req = Inr body"
    and "get_prop body ''error'' = Inr e"
  shows "((\<exists>x. result (call fetch self op args) = Inl x) \<longleftrightarrow> truthy e) \<and>
         (truthy e \<longrightarrow> result (call fetch self op args) = Inl (Thrown body)) \<and>
         (\<not> truthy e \<longrightarrow> result (call fetch self op args) = Inr body)"
  using assms by (simp add: call_result)

theorem dispatch_fails_iff_error_truthy_witness:
  "sent (call (\<lambda>req. Inr (JObj [(''error'', JObj [(''code'', JNum 1), (''message'', JStr ''x'')])]))
          (Requests JUndefined JUndefined) GetMempool [])
     = [request_of (Requests JUndefined JUndefined) GetMempool []] \<and>
   result (call (\<lambda>req. Inr (JObj [(''error'', JObj [(''code'', JNum 1), (''message'', JStr ''x'')])]))
          (Requests JUndefined JUndefined) GetMempool [])
     = Inl (Thrown (JObj [(''error'', JObj [(''code'', JNum 1), (''message'', JStr ''x'')])]))"
proof -
  let ?b = "JObj [(''error'', JObj [(''code'', JNum 1), (''message'', JStr ''x'')])]"
  let ?c = "Requests JUndefined JUndefined"
  have s: "sent (call (\<lambda>req. Inr ?b) ?c GetMempool []) = [request_of ?c GetMempool []]"
    by (rule no_param_sent) simp
  have f: "(\<lambda>req. Inr ?b) (request_of ?c GetMempool []) = (Inr ?b :: js_error + jsval)"
    by simp
  have g: "get_prop ?b ''error'' = Inr (JObj [(''code'', JNum 1), (''message'', JStr ''x'')])"
    by simp
  from dispatch_fails_iff_error_truthy [OF s f g] s show ?thesis by simp
qed

text \<open>
  The claim as worded, failure if and only if the body contains an \<^verbatim>\<open>error\<close> field, is
  false in both directions: the body \<^verbatim>\<open>{"result":1,"error":null}\<close> contains the field and
  the call resolves with it, and the body \<^verbatim>\<open>null\<close> contains no field and the call is
  rejected with a TypeError.
\<close>

theorem error_field_without_failure:
  "has_field (JObj [(''result'', JNum 1), (''error'', JNull)]) ''error'' \<and>
   result (call (\<lambda>req. Inr (JObj [(''result'', JNum 1), (''error'', JNull)]))
             (Requests JUndefined JUndefined) GetMempool [])
     = Inr (JObj [(''result'', JNum 1), (''error'', JNull)]) \<and>
   \<not> has_field JNull ''error'' \<and>
   result (call (\<lambda>req. Inr JNull) (Requests JUndefined JUndefined) GetMempool []) = Inl TypeError"
  by (simp add: has_field_def getMempool_def LokiRequest_def Let_def)

text \<open>
  Claim C6, as the code has it. When the transport's parsed body is
  \<^verbatim>\<open>{"result":{"ok":true}}\<close>, a call that has passed validation resolves with that whole
  body, unmodified.
\<close>

theorem result_body_returned_whole:
  assumes "sent (call fetch self op args) = [req]"
    and "fetch req = Inr (JObj [(''result'', JObj [(''ok'', JBool True)])])"
  shows "result (call fetch self op args) = Inr (JObj [(''result'', JObj [(''ok'', JBool True)])])"
  using assms by (simp add: call_result)

theorem result_body_returned_whole_witness:
  "sent (call (\<lambda>req. Inr (JObj [(''result'', JObj [(''ok'', JBool True)])]))
          (Requests JUndefined JUndefined) ChainInfo [])
     = [request_of (Requests JUndefined JUndefined) ChainInfo []] \<and>
   result (call (\<lambda>req. Inr (JObj [(''result'', JObj [(''ok'', JBool True)])]))
          (Requests JUndefined JUndefined) ChainInfo [])
     = Inr (JObj [(''result'', JObj [(''ok'', JBool True)])])"
proof -
  let ?b = "JObj [(''result'', JObj [(''ok'', JBool True)])]"
  let ?c = "Requests JUndefined JUndefined"
  have s: "sent (call (\<lambda>req. Inr ?b) ?c ChainInfo []) = [request_of ?c ChainInfo []]"
    by (rule no_param_sent) simp
  have f: "(\<lambda>req. Inr ?b) (request_of ?c ChainInfo []) = (Inr ?b :: js_error + jsval)"
    by simp
  from result_body_returned_whole [OF s f] s show ?thesis by simp
qed

text \<open>
  The claim as worded has the call resolve with \<^verbatim>\<open>{"ok":true}\<close>, the \<^verbatim>\<open>result\<close> member
  alone; \<^verbatim>\<open>getMempool()\<close> does not.
\<close>

theorem result_member_not_unwrapped:
  "result (call (\<lambda>req. Inr (JObj [(''result'', JObj [(''ok'', JBool True)])]))
             (Requests JUndefined JUndefined) GetMempool [])
     \<noteq> Inr (JObj [(''ok'', JBool True)])"
  by (simp add: getMempool_def LokiRequest_def Let_def)

section \<open>The request\<close>

text \<open>A call that the validation policy accepts, of any operation but \<^verbatim>\<open>calcDelay\<close>, sends
  exactly one request, the one of section 6.\<close>

lemma accepted_call_sent:
  assumes "op \<noteq> CalcDelay" and "validation_policy op (params_of op args) = None"
  shows "sent (call fetch self op args) = [request_of self op args]"
proof -
  have supplied: "truthy (params_of op args)" if "op = GetBalancesByKey"
    using assms(2) that by (simp add: validation_policy_def split: if_splits)
  have "call fetch self op args =
     (case validation_policy op (params_of op args) of
        Some e \<Rightarrow> throw e
      | None \<Rightarrow> LokiRequest fetch (route_info op args) (params_of op args) self)"
    using assms(1) supplied by (rule call_refines_policy)
  with assms(2)
  have c: "call fetch self op args =
      LokiRequest fetch (route_info op args) (params_of op args) self"
    by simp
  from assms(2) obtain kvs where p: "params_of op args = JObj kvs"
    using policy_passes_object by blast
  then have "sent (LokiRequest fetch (route_info op args) (JObj kvs) self) =
      [request_of self op args]"
    by (rule LokiRequest_sent)
  with c p show ?thesis by simp
qed

text \<open>
  The envelope and its target: for every operation other than \<^verbatim>\<open>calcDelay\<close>, a call that
  the validation policy accepts sends exactly one request, a POST to the configured url
  followed by the operation's route, with the configured headers, whose body is the
  serialised envelope: \<^verbatim>\<open>jsonrpc\<close> \<^verbatim>\<open>"2.0"\<close>, the id, the operation's method, and
  \<^verbatim>\<open>params\<close> an array whose sole element is the caller's parameter object (the empty
  object for an operation without parameters). In particular \<^verbatim>\<open>getMempool()\<close> on a
  client whose url is the string \<open>baseUrl\<close> sends exactly
  \<^verbatim>\<open>{"jsonrpc":"2.0","id":"1","method":"mempool","params":[{}]}\<close> to \<open>baseUrl\<close> followed by
  \<^verbatim>\<open>nodeView/\<close>.
\<close>

theorem accepted_call_posts_envelope:
  \<open>(op \<noteq> CalcDelay \<and> validation_policy op (params_of op args) = None \<longrightarrow>
      sent (call fetch self op args) =
        [\<lparr>p_url = ToString (url self) @ route_of op,
          p_method = ''POST'',
          p_headers = headers self,
          p_body =
            JSON_stringify
              (JObj [(''jsonrpc'', JStr ''2.0''),
                     (''id'', envelope_id (id_of op args)),
                     (''method'', JStr (method_of op)),
                     (''params'', JArr [params_of op args])])\<rparr>]) \<and>
   sent (call fetch (setUrl (JStr baseUrl) self) GetMempool []) =
     [\<lparr>p_url = baseUrl @ ''nodeView/'', p_method = ''POST'', p_headers = headers self,
       p_body = JStr ''{"jsonrpc":"2.0","id":"1","method":"mempool","params":[{}]}''\<rparr>]\<close>
proof (intro conjI impI; (elim conjE)?)
  assume "op \<noteq> CalcDelay" and "validation_policy op (params_of op args) = None"
  then have "sent (call fetch self op args) = [request_of self op args]"
    by (rule accepted_call_sent)
  then show "sent (call fetch self op args) =
        [\<lparr>p_url = ToString (url self) @ route_of op,
          p_method = ''POST'',
          p_headers = headers self,
          p_body =
            JSON_stringify
              (JObj [(''jsonrpc'', JStr ''2.0''),
                     (''id'', envelope_id (id_of op args)),
                     (''method'', JStr (method_of op)),
                     (''params'', JArr [params_of op args])])\<rparr>]"
    by (simp add: request_of_def js_plus_def envelope_def)
next
  show \<open>sent (call fetch (setUrl (JStr baseUrl) self) GetMempool []) =
     [\<lparr>p_url = baseUrl @ ''nodeView/'', p_method = ''POST'', p_headers = headers self,
       p_body = JStr ''{"jsonrpc":"2.0","id":"1","method":"mempool","params":[{}]}''\<rparr>]\<close>
    by (simp add: getMempool_def LokiRequest_def Let_def default_param_def js_or_def
        js_plus_def setUrl_def arg_def JSON_stringify_def QuoteJSONString_def quote_char_def
        split: sum.splits)
qed

theorem accepted_call_posts_envelope_witness:
  \<open>validation_policy TransferPolys
     (JObj [(''recipient'', JStr ''a''), (''amount'', JNum 5), (''fee'', JNum 0)]) = None \<and>
   sent (call (\<lambda>req. Inr JNull) (Requests JUndefined JUndefined) TransferPolys
           [JObj [(''recipient'', JStr ''a''), (''amount'', JNum 5), (''fee'', JNum 0)], JStr ''7''])
     = [\<lparr>p_url = ''http://localhost:9085/wallet/'', p_method = ''POST'',
         p_headers = \<lparr>Content_Type = JStr ''application/json'',
                       x_api_key = JStr ''topl_the_world!''\<rparr>,
         p_body = JStr ''{"jsonrpc":"2.0","id":"7","method":"transferPolys","params":[{"recipient":"a","amount":5,"fee":0}]}''\<rparr>]\<close>
proof -
  let ?c = "Requests JUndefined JUndefined"
  let ?p = "JObj [(''recipient'', JStr ''a''), (''amount'', JNum 5), (''fee'', JNum 0)]"
  let ?args = "[?p, JStr ''7'']"
  have v: "validation_policy TransferPolys ?p = None"
    by (simp add: validation_policy_def absent_def field_def)
  then have h: "TransferPolys \<noteq> CalcDelay \<and>
      validation_policy TransferPolys (params_of TransferPolys ?args) = None"
    by (simp add: params_of_def arg_def)
  have "sent (call (\<lambda>req. Inr JNull) ?c TransferPolys ?args) =
        [\<lparr>p_url = ToString (url ?c) @ route_of TransferPolys,
          p_method = ''POST'',
          p_headers = headers ?c,
          p_body =
            JSON_stringify
              (JObj [(''jsonrpc'', JStr ''2.0''),
                     (''id'', envelope_id (id_of TransferPolys ?args)),
                     (''method'', JStr (method_of TransferPolys)),
                     (''params'', JArr [params_of TransferPolys ?args])])\<rparr>]"
    using accepted_call_posts_envelope [where op = TransferPolys and args = ?args
        and fetch = "\<lambda>req. Inr JNull" and self = ?c] h
    by blast
  then show ?thesis
    using v
    by (simp add: Requests_def default_param_def Let_def envelope_id_def id_of_def params_of_def
        arg_def JSON_stringify_def QuoteJSONString_def quote_char_def int_to_string_def
        dec_digits.simps digit_char_def char_of_def bit_0 del: call.simps)
qed

text \<open>
  The id of the envelope: for every operation other than \<^verbatim>\<open>calcDelay\<close>, in the request
  of a call that the validation policy accepts, the id of the envelope is \<^verbatim>\<open>"1"\<close>
  whenever the caller's id is falsy (omitted, \<^verbatim>\<open>""\<close>, \<^verbatim>\<open>0\<close>, ...), and is the caller's
  id unchanged whenever that is truthy.
\<close>

theorem accepted_call_envelope_id:
  assumes "op \<noteq> CalcDelay" and "validation_policy op (params_of op args) = None"
  shows "(\<not> truthy (id_of op args) \<longrightarrow>
            map p_body (sent (call fetch self op args)) =
              [JSON_stringify (envelope (JStr ''1'') (method_of op) (params_of op args))]) \<and>
         (truthy (id_of op args) \<longrightarrow>
            map p_body (sent (call fetch self op args)) =
              [JSON_stringify (envelope (id_of op args) (method_of op) (params_of op args))])"
proof -
  from assms have "sent (call fetch self op args) = [request_of self op args]"
    by (rule accepted_call_sent)
  then show ?thesis
    by (simp add: request_of_def envelope_id_def)
qed

theorem accepted_call_envelope_id_witness:
  \<open>map p_body (sent (call (\<lambda>req. Inr JNull) (Requests JUndefined JUndefined) GetMempool [JStr '''']))
     = [JStr ''{"jsonrpc":"2.0","id":"1","method":"mempool","params":[{}]}''] \<and>
   map p_body (sent (call (\<lambda>req. Inr JNull) (Requests JUndefined JUndefined) GetMempool [JNum 0]))
     = [JStr ''{"jsonrpc":"2.0","id":"1","method":"mempool","params":[{}]}''] \<and>
   map p_body (sent (call (\<lambda>req. Inr JNull) (Requests JUndefined JUndefined) GetBlockById
                        [JObj [(''blockId'', JStr ''b'')], JNum 7]))
     = [JStr ''{"jsonrpc":"2.0","id":7,"method":"blockById","params":[{"blockId":"b"}]}'']\<close>
proof -
  let ?c = "Requests JUndefined JUndefined"
  let ?f = "(\<lambda>req. Inr JNull) :: transport"
  let ?p = "JObj [(''blockId'', JStr ''b'')]"
  have m: "GetMempool \<noteq> CalcDelay \<and>
      validation_policy GetMempool (params_of GetMempool args) = None" for args
    by (simp add: validation_policy_def)
  have b: "GetBlockById \<noteq> CalcDelay \<and>
      validation_policy GetBlockById (params_of GetBlockById [?p, JNum 7]) = None"
    by (simp add: validation_policy_def params_of_def arg_def absent_def field_def)
  have \<open>map p_body (sent (call ?f ?c GetMempool [JStr ''''])) =
          [JStr ''{"jsonrpc":"2.0","id":"1","method":"mempool","params":[{}]}'']\<close>
    using accepted_call_envelope_id [where op = GetMempool and args = "[JStr '''']"
        and fetch = ?f and self = ?c] m [of "[JStr '''']"]
    by (simp add: id_of_def params_of_def arg_def envelope_def JSON_stringify_def
        QuoteJSONString_def quote_char_def del: call.simps)
  moreover have \<open>map p_body (sent (call ?f ?c GetMempool [JNum 0])) =
          [JStr ''{"jsonrpc":"2.0","id":"1","method":"mempool","params":[{}]}'']\<close>
    using accepted_call_envelope_id [where op = GetMempool and args = "[JNum 0]"
        and fetch = ?f and self = ?c] m [of "[JNum 0]"]
    by (simp add: id_of_def params_of_def arg_def envelope_def JSON_stringify_def
        QuoteJSONString_def quote_char_def del: call.simps)
  moreover have \<open>map p_body (sent (call ?f ?c GetBlockById [?p, JNum 7])) =
          [JStr ''{"jsonrpc":"2.0","id":7,"method":"blockById","params":[{"blockId":"b"}]}'']\<close>
    using accepted_call_envelope_id [where op = GetBlockById and args = "[?p, JNum 7]"
        and fetch = ?f and self = ?c] b
    by (simp add: id_of_def params_of_def arg_def envelope_def JSON_stringify_def
        QuoteJSONString_def quote_char_def int_to_string_def dec_digits.simps digit_char_def
        char_of_def bit_0 del: call.simps)
  ultimately show ?thesis
    by blast
qed

section \<open>The configuration\<close>

text \<open>
  Constructed without arguments, the client has the url \<^verbatim>\<open>http://localhost:9085/\<close> and the
  api key \<^verbatim>\<open>topl_the_world!\<close>. \<^verbatim>\<open>setUrl\<close> and \<^verbatim>\<open>setApiKey\<close> store whatever value they
  are given, leaving the rest of the configuration as it was. For every operation other
  than \<^verbatim>\<open>calcDelay\<close>, a call that the validation policy accepts, made after \<^verbatim>\<open>setUrl\<close>,
  sends its one request to the new url followed by the operation's route; made after
  \<^verbatim>\<open>setApiKey\<close>, it sends its one request with the new key as \<^verbatim>\<open>x-api-key\<close> header.
\<close>

theorem setters_take_effect:
  "Requests JUndefined JUndefined =
     \<lparr>url = JStr ''http://localhost:9085/'',
      headers = \<lparr>Content_Type = JStr ''application/json'',
                  x_api_key = JStr ''topl_the_world!''\<rparr>\<rparr> \<and>
   setUrl u self = \<lparr>url = u, headers = headers self\<rparr> \<and>
   setApiKey k self =
     \<lparr>url = url self,
      headers = \<lparr>Content_Type = Content_Type (headers self), x_api_key = k\<rparr>\<rparr> \<and>
   (op \<noteq> CalcDelay \<and> validation_policy op (params_of op args) = None \<longrightarrow>
      map p_url (sent (call fetch (setUrl u self) op args)) = [ToString u @ route_of op] \<and>
      map p_url (sent (call fetch (setUrl (JStr s) self) op args)) = [s @ route_of op] \<and>
      map p_headers (sent (call fetch (setUrl u self) op args)) = [headers self] \<and>
      map p_headers (sent (call fetch (setApiKey k self) op args)) =
        [\<lparr>Content_Type = Content_Type (headers self), x_api_key = k\<rparr>] \<and>
      map p_url (sent (call fetch (setApiKey k self) op args)) =
        [ToString (url self) @ route_of op])"
proof (intro conjI impI; (elim conjE)?)
  show "Requests JUndefined JUndefined =
     \<lparr>url = JStr ''http://localhost:9085/'',
      headers = \<lparr>Content_Type = JStr ''application/json'',
                  x_api_key = JStr ''topl_the_world!''\<rparr>\<rparr>"
    by (simp add: Requests_def default_param_def)
  show "setUrl u self = \<lparr>url = u, headers = headers self\<rparr>"
    by (simp add: setUrl_def)
  show "setApiKey k self =
     \<lparr>url = url self,
      headers = \<lparr>Content_Type = Content_Type (headers self), x_api_key = k\<rparr>\<rparr>"
    by (simp add: setApiKey_def)
next
  assume a: "op \<noteq> CalcDelay" "validation_policy op (params_of op args) = None"
  have one: "sent (call fetch c op args) = [request_of c op args]" for c
    using a by (rule accepted_call_sent)
  show "map p_url (sent (call fetch (setUrl u self) op args)) = [ToString u @ route_of op]"
    by (simp add: one request_of_def js_plus_def setUrl_def)
  show "map p_url (sent (call fetch (setUrl (JStr s) self) op args)) = [s @ route_of op]"
    by (simp add: one request_of_def js_plus_def setUrl_def)
  show "map p_headers (sent (call fetch (setUrl u self) op args)) = [headers self]"
    by (simp add: one request_of_def setUrl_def)
  show "map p_headers (sent (call fetch (setApiKey k self) op args)) =
        [\<lparr>Content_Type = Content_Type (headers self), x_api_key = k\<rparr>]"
    by (simp add: one request_of_def setApiKey_def)
  show "map p_url (sent (call fetch (setApiKey k self) op args)) =
        [ToString (url self) @ route_of op]"
    by (simp add: one request_of_def js_plus_def setApiKey_def)
qed

theorem setters_take_effect_witness:
  "validation_policy GetBlockById (JObj [(''blockId'', JStr ''b'')]) = None \<and>
   map p_url
     (sent (call (\<lambda>req. Inr JNull)
              (setUrl (JStr ''http://example:1234/'') (Requests JUndefined JUndefined))
              GetBlockById [JObj [(''blockId'', JStr ''b'')]]))
     = [''http://example:1234/nodeView/''] \<and>
   map p_headers
     (sent (call (\<lambda>req. Inr JNull) (setApiKey (JStr ''k'') (Requests JUndefined JUndefined))
              GetBlockById [JObj [(''blockId'', JStr ''b'')]]))
     = [\<lparr>Content_Type = JStr ''application/json'', x_api_key = JStr ''k''\<rparr>]"
proof -
  let ?c = "Requests JUndefined JUndefined"
  let ?f = "(\<lambda>req. Inr JNull) :: transport"
  let ?u = "''http://example:1234/''"
  let ?p = "JObj [(''blockId'', JStr ''b'')]"
  have v: "validation_policy GetBlockById ?p = None"
    by (simp add: validation_policy_def absent_def field_def)
  then have h: "GetBlockById \<noteq> CalcDelay \<and>
      validation_policy GetBlockById (params_of GetBlockById [?p]) = None"
    by (simp add: params_of_def arg_def)
  have "map p_url (sent (call ?f (setUrl (JStr ?u) ?c) GetBlockById [?p])) =
          [?u @ route_of GetBlockById] \<and>
        map p_headers (sent (call ?f (setApiKey (JStr ''k'') ?c) GetBlockById [?p])) =
          [\<lparr>Content_Type = Content_Type (headers ?c), x_api_key = JStr ''k''\<rparr>]"
    using setters_take_effect [where self = ?c and fetch = ?f and op = GetBlockById
        and args = "[?p]" and s = ?u and k = "JStr ''k''"] h
    by blast
  then show ?thesis
    using v by (simp add: Requests_def default_param_def del: call.simps)
qed

section \<open>Validation\<close>

lemma LokiRequest_sends: "sent (LokiRequest fetch ri p self) \<noteq> []"
  by (simp add: LokiRequest_def Let_def split: sum.splits)

lemma rejected_with_policy:
  assumes "op \<noteq> CalcDelay" and "op \<noteq> GetBalancesByKey"
  shows "rejected_with (call fetch self op args) = validation_policy op (params_of op args)"
proof -
  have "call fetch self op args =
     (case validation_policy op (params_of op args) of
        Some e \<Rightarrow> throw e
      | None \<Rightarrow> LokiRequest fetch (route_info op args) (params_of op args) self)"
    by (rule call_refines_policy) (use assms in simp_all)
  then show ?thesis
    by (simp add: rejected_with_def LokiRequest_sends split: option.splits)
qed

lemma policy_same_truthiness:
  assumes "op \<noteq> GetBalancesByKey" and "same_truthiness_params op p q"
  shows "validation_policy op p = validation_policy op q"
  using assms
  by (cases op)
     (auto simp add: validation_policy_def same_truthiness_params_def same_truthiness_def
        absent_def)

lemma field_truthy_params: "truthy (field p k) \<Longrightarrow> truthy p"
  by (cases p) (simp_all add: field_def)

lemma params_of_cons: "\<not> no_param_op op \<Longrightarrow> params_of op (p # rest) = p"
  by (simp add: params_of_def arg_def)

lemma fee_operation_cases:
  assumes "op \<in> set fee_operations"
  shows "op \<noteq> CalcDelay" and "op \<noteq> GetBalancesByKey" and "\<not> no_param_op op"
  using assms by (auto simp add: fee_operations_def)

lemma fee_zero_passes:
  assumes "op \<in> set fee_operations"
    and "list_all (\<lambda>k. truthy (field p k)) (remove1 ''fee'' (required_fields op))"
    and "field p ''fee'' = JNum 0"
  shows "validation_policy op p = None" and "\<exists>kvs. p = JObj kvs"
  using assms
  by (auto simp add: fee_operations_def validation_policy_def absent_def
      intro: field_truthy_object field_truthy_params)

lemma amount_zero_fails:
  assumes "op \<in> set fee_operations"
    and "list_all (\<lambda>k. truthy (field p k))
           (takeWhile (\<lambda>k. k \<noteq> ''amount'') (required_fields op))"
    and "field p ''amount'' = JNum 0"
  shows "validation_policy op p = Some (Error ''An amount must be specified'')"
  using assms
  by (auto simp add: fee_operations_def validation_policy_def absent_def message_of_def
      intro: field_truthy_params)

text \<open>
  Claim C2. For \<^verbatim>\<open>transferPolys\<close>, \<^verbatim>\<open>transferArbits\<close>, \<^verbatim>\<open>createAssets\<close>,
  \<^verbatim>\<open>createAssetsPrototype\<close>, \<^verbatim>\<open>transferAssets\<close>, \<^verbatim>\<open>transferAssetsPrototype\<close>,
  \<^verbatim>\<open>transferTargetAssets\<close> and \<^verbatim>\<open>transferTargetAssetsPrototype\<close>: a parameter object whose
  \<^verbatim>\<open>fee\<close> is the literal \<^verbatim>\<open>0\<close> and whose other required fields are truthy passes
  validation and its request is sent; a parameter object whose \<^verbatim>\<open>amount\<close> is \<^verbatim>\<open>0\<close>, the
  required fields checked before \<^verbatim>\<open>amount\<close> being truthy, is rejected with the error for
  \<^verbatim>\<open>amount\<close>, whatever its \<^verbatim>\<open>fee\<close>.
\<close>

theorem fee_zero_accepted_amount_zero_rejected:
  assumes "op \<in> set fee_operations"
  shows "(list_all (\<lambda>k. truthy (field p k)) (remove1 ''fee'' (required_fields op)) \<and>
          field p ''fee'' = JNum 0 \<longrightarrow>
            sent (call fetch self op (p # rest)) = [request_of self op (p # rest)]) \<and>
         (list_all (\<lambda>k. truthy (field p k))
            (takeWhile (\<lambda>k. k \<noteq> ''amount'') (required_fields op)) \<and>
          field p ''amount'' = JNum 0 \<longrightarrow>
            call fetch self op (p # rest) = throw (Error ''An amount must be specified''))"
proof -
  note op = fee_operation_cases [OF assms]
  have p: "params_of op (p # rest) = p"
    using op(3) by (rule params_of_cons)
  have eq: "call fetch self op (p # rest) =
     (case validation_policy op p of
        Some e \<Rightarrow> throw e
      | None \<Rightarrow> LokiRequest fetch (route_info op (p # rest)) p self)"
    using call_refines_policy [of op "p # rest" fetch self] op(1,2) p
    by (simp cong: option.case_cong)
  show ?thesis
  proof (intro conjI impI; elim conjE)
    assume a: "list_all (\<lambda>k. truthy (field p k)) (remove1 ''fee'' (required_fields op))"
      and f: "field p ''fee'' = JNum 0"
    from fee_zero_passes [OF assms a f] obtain kvs
      where v: "validation_policy op p = None" and o: "p = JObj kvs"
      by blast
    from p o have "params_of op (p # rest) = JObj kvs" by simp
    then have "sent (LokiRequest fetch (route_info op (p # rest)) (JObj kvs) self) =
        [request_of self op (p # rest)]"
      by (rule LokiRequest_sent)
    with eq v o show "sent (call fetch self op (p # rest)) = [request_of self op (p # rest)]"
      by simp
  next
    assume a: "list_all (\<lambda>k. truthy (field p k))
            (takeWhile (\<lambda>k. k \<noteq> ''amount'') (required_fields op))"
      and z: "field p ''amount'' = JNum 0"
    from amount_zero_fails [OF assms a z] eq
    show "call fetch self op (p # rest) = throw (Error ''An amount must be specified'')"
      by simp
  qed
qed

theorem fee_zero_accepted_amount_zero_rejected_witness:
  "TransferPolys \<in> set fee_operations \<and>
   sent (call (\<lambda>req. Inr JNull) (Requests JUndefined JUndefined) TransferPolys
           [JObj [(''recipient'', JStr ''a''), (''amount'', JNum 5), (''fee'', JNum 0)]])
     = [request_of (Requests JUndefined JUndefined) TransferPolys
           [JObj [(''recipient'', JStr ''a''), (''amount'', JNum 5), (''fee'', JNum 0)]]] \<and>
   call (\<lambda>req. Inr JNull) (Requests JUndefined JUndefined) TransferPolys
           [JObj [(''recipient'', JStr ''a''), (''amount'', JNum 0), (''fee'', JNum 2)]]
     = throw (Error ''An amount must be specified'')"
proof -
  have m: "TransferPolys \<in> set fee_operations"
    by (simp add: fee_operations_def)
  have a: "list_all (\<lambda>k. truthy (field (JObj [(''recipient'', JStr ''a''), (''amount'', JNum 5),
              (''fee'', JNum 0)]) k)) (remove1 ''fee'' (required_fields TransferPolys)) \<and>
           field (JObj [(''recipient'', JStr ''a''), (''amount'', JNum 5), (''fee'', JNum 0)]) ''fee''
             = JNum 0"
    by (simp add: field_def)
  have b: "list_all (\<lambda>k. truthy (field (JObj [(''recipient'', JStr ''a''), (''amount'', JNum 0),
              (''fee'', JNum 2)]) k))
             (takeWhile (\<lambda>k. k \<noteq> ''amount'') (required_fields TransferPolys)) \<and>
           field (JObj [(''recipient'', JStr ''a''), (''amount'', JNum 0), (''fee'', JNum 2)])
             ''amount'' = JNum 0"
    by (simp add: field_def)
  from fee_zero_accepted_amount_zero_rejected [OF m] a b m show ?thesis
    by blast
qed

text \<open>
  Claim C10. \<^verbatim>\<open>getBalancesByKey\<close> rejects every parameter value whose \<^verbatim>\<open>publicKeys\<close> is
  not an array, truthy or not, with the error \<^verbatim>\<open>A list of publicKeys must be specified\<close>.
  It is the only operation that looks at more than truthiness: for every other operation,
  two parameter values with the same truthiness, whose required fields have the same
  truthiness and are the literal \<^verbatim>\<open>0\<close> together, are both sent or both rejected with the
  same error; \<^verbatim>\<open>getBalancesByKey\<close> tells the string \<^verbatim>\<open>"k"\<close> from the array \<^verbatim>\<open>["k"]\<close>.
\<close>

theorem publicKeys_must_be_array:
  "(get_prop p ''publicKeys'' = Inr v \<and> \<not> isArray v \<longrightarrow>
      call fetch self GetBalancesByKey (p # rest) =
        throw (Error ''A list of publicKeys must be specified'')) \<and>
   (op \<noteq> GetBalancesByKey \<and> same_truthiness_params op p q \<longrightarrow>
      rejected_with (call fetch self op (p # rest)) =
      rejected_with (call fetch self op (q # rest))) \<and>
   same_truthiness_params GetBalancesByKey
     (JObj [(''publicKeys'', JStr ''k'')]) (JObj [(''publicKeys'', JArr [JStr ''k''])]) \<and>
   rejected_with (call fetch self GetBalancesByKey [JObj [(''publicKeys'', JStr ''k'')]]) =
     Some (Error ''A list of publicKeys must be specified'') \<and>
   rejected_with (call fetch self GetBalancesByKey [JObj [(''publicKeys'', JArr [JStr ''k''])]]) =
     None"
proof (intro conjI impI; (elim conjE)?)
  assume "get_prop p ''publicKeys'' = Inr v" and "\<not> isArray v"
  then show "call fetch self GetBalancesByKey (p # rest) =
        throw (Error ''A list of publicKeys must be specified'')"
    by (simp add: getBalancesByKey_def read_prop_def arg_def Let_def)
next
  assume n: "op \<noteq> GetBalancesByKey" and t: "same_truthiness_params op p q"
  show "rejected_with (call fetch self op (p # rest)) =
      rejected_with (call fetch self op (q # rest))"
  proof (cases "op = CalcDelay")
    case True
    then show ?thesis by (simp add: calcDelay_def)
  next
    case False
    show ?thesis
    proof (cases "no_param_op op")
      case True
      then show ?thesis
        by (simp add: rejected_with_policy False n validation_policy_def)
    next
      case np: False
      from n t have "validation_policy op p = validation_policy op q"
        by (rule policy_same_truthiness)
      with np show ?thesis
        by (simp add: rejected_with_policy False n params_of_cons)
    qed
  qed
next
  show "same_truthiness_params GetBalancesByKey
     (JObj [(''publicKeys'', JStr ''k'')]) (JObj [(''publicKeys'', JArr [JStr ''k''])])"
    by (simp add: same_truthiness_params_def same_truthiness_def field_def)
  show "rejected_with (call fetch self GetBalancesByKey [JObj [(''publicKeys'', JStr ''k'')]]) =
     Some (Error ''A list of publicKeys must be specified'')"
    by (simp add: getBalancesByKey_def read_prop_def arg_def Let_def rejected_with_def)
  show "rejected_with (call fetch self GetBalancesByKey [JObj [(''publicKeys'', JArr [JStr ''k''])]]) =
     None"
    by (simp add: getBalancesByKey_def read_prop_def arg_def Let_def rejected_with_def
        LokiRequest_sends)
qed

theorem publicKeys_must_be_array_witness:
  "call (\<lambda>req. Inr JNull) (Requests JUndefined JUndefined) GetBalancesByKey
      [JObj [(''publicKeys'', JStr ''key'')]]
     = throw (Error ''A list of publicKeys must be specified'') \<and>
   same_truthiness_params GenerateKeyfile
     (JObj [(''password'', JStr ''pw'')]) (JObj [(''password'', JArr [])]) \<and>
   rejected_with (call (\<lambda>req. Inr JNull) (Requests JUndefined JUndefined) GenerateKeyfile
      [JObj [(''password'', JStr ''pw'')]])
     = rejected_with (call (\<lambda>req. Inr JNull) (Requests JUndefined JUndefined) GenerateKeyfile
      [JObj [(''password'', JArr [])]])"
proof -
  let ?f = "(\<lambda>req. Inr JNull) :: transport"
  let ?c = "Requests JUndefined JUndefined"
  have g: "get_prop (JObj [(''publicKeys'', JStr ''key'')]) ''publicKeys'' = Inr (JStr ''key'') \<and>
           \<not> isArray (JStr ''key'')"
    by simp
  have t: "GenerateKeyfile \<noteq> GetBalancesByKey \<and>
           same_truthiness_params GenerateKeyfile
             (JObj [(''password'', JStr ''pw'')]) (JObj [(''password'', JArr [])])"
    by (simp add: same_truthiness_params_def same_truthiness_def field_def)
  have "call ?f ?c GetBalancesByKey [JObj [(''publicKeys'', JStr ''key'')]]
     = throw (Error ''A list of publicKeys must be specified'')"
    using publicKeys_must_be_array [where p = "JObj [(''publicKeys'', JStr ''key'')]"
        and v = "JStr ''key''" and fetch = ?f and self = ?c and rest = "[]"] g
    by blast
  moreover have "rejected_with (call ?f ?c GenerateKeyfile [JObj [(''password'', JStr ''pw'')]])
     = rejected_with (call ?f ?c GenerateKeyfile [JObj [(''password'', JArr [])]])"
    using publicKeys_must_be_array [where op = GenerateKeyfile
        and p = "JObj [(''password'', JStr ''pw'')]" and q = "JObj [(''password'', JArr [])]"
        and fetch = ?f and self = ?c and rest = "[]"] t
    by blast
  ultimately show ?thesis
    using t by blast
qed

text \<open>
  Where the parameter object is checked: every operation with a parameter object other than \<^verbatim>\<open>getBalancesByKey\<close> and \<^verbatim>\<open>calcDelay\<close> rejects a call
  without arguments, and a call whose parameter object is falsy, with
  \<^verbatim>\<open>A parameter object must be specified\<close>.
\<close>

theorem missing_params_reported_elsewhere:
  assumes "\<not> no_param_op op" and "op \<noteq> GetBalancesByKey" and "op \<noteq> CalcDelay"
    and "\<not> truthy p"
  shows "call fetch self op [] = throw (Error ''A parameter object must be specified'') \<and>
         call fetch self op (p # rest) = throw (Error ''A parameter object must be specified'')"
proof -
  have "call fetch self op args = throw (Error ''A parameter object must be specified'')"
    if "\<not> truthy (params_of op args)" for args
  proof -
    have "call fetch self op args =
       (case validation_policy op (params_of op args) of
          Some e \<Rightarrow> throw e
        | None \<Rightarrow> LokiRequest fetch (route_info op args) (params_of op args) self)"
      by (rule call_refines_policy) (use assms in simp_all)
    with that assms(1) show ?thesis
      by (simp add: validation_policy_def)
  qed
  from this [of "[]"] this [of "p # rest"] assms(1,4) show ?thesis
    by (simp add: params_of_def arg_def)
qed

theorem missing_params_reported_elsewhere_witness:
  "call (\<lambda>req. Inr JNull) (Requests JUndefined JUndefined) GenerateKeyfile []
     = throw (Error ''A parameter object must be specified'') \<and>
   call (\<lambda>req. Inr JNull) (Requests JUndefined JUndefined) GenerateKeyfile [JNull, JStr ''2'']
     = throw (Error ''A parameter object must be specified'')"
  using missing_params_reported_elsewhere [of GenerateKeyfile JNull "\<lambda>req. Inr JNull"
      "Requests JUndefined JUndefined" "[JStr ''2'']"]
  by (simp del: call.simps)

text \<open>
  Short-circuit in declared order: for every operation other than \<^verbatim>\<open>calcDelay\<close>, a call with a truthy parameter object is rejected with the error of the
  first required field, in declared order, that is absent.
\<close>

theorem first_violation_is_reported:
  assumes "op \<noteq> CalcDelay" and "truthy p"
    and "find (\<lambda>k. absent k (field p k)) (required_fields op) = Some k"
  shows "call fetch self op (p # rest) = throw (Error (message_of k))"
proof -
  from assms(3) have np: "\<not> no_param_op op"
    by (cases op) simp_all
  then have p: "params_of op (p # rest) = p"
    by (rule params_of_cons)
  have "call fetch self op (p # rest) =
     (case validation_policy op (params_of op (p # rest)) of
        Some e \<Rightarrow> throw e
      | None \<Rightarrow> LokiRequest fetch (route_info op (p # rest)) (params_of op (p # rest)) self)"
    by (rule call_refines_policy) (use assms p in simp_all)
  with assms np p show ?thesis
    by (simp add: validation_policy_def)
qed

theorem first_violation_is_reported_witness:
  "call (\<lambda>req. Inr JNull) (Requests JUndefined JUndefined) TransferAssetsPrototype
      [JObj [(''assetCode'', JStr ''c''), (''amount'', JNum 0)]]
     = throw (Error ''An asset issuer must be specified'') \<and>
   call (\<lambda>req. Inr JNull) (Requests JUndefined JUndefined) LockKeyfile
      [JObj [(''publicKey'', JStr ''k''), (''password'', JStr [])]]
     = throw (Error ''A password must be provided to encrypt the keyfile'')"
proof -
  let ?f = "(\<lambda>req. Inr JNull) :: transport"
  let ?c = "Requests JUndefined JUndefined"
  let ?p = "JObj [(''assetCode'', JStr ''c''), (''amount'', JNum 0)]"
  let ?q = "JObj [(''publicKey'', JStr ''k''), (''password'', JStr [])]"
  have a: "find (\<lambda>k. absent k (field ?p k)) (required_fields TransferAssetsPrototype) =
      Some ''issuer''"
    by (simp add: absent_def field_def)
  have b: "find (\<lambda>k. absent k (field ?q k)) (required_fields LockKeyfile) = Some ''password''"
    by (simp add: absent_def field_def)
  have "call ?f ?c TransferAssetsPrototype [?p] = throw (Error (message_of ''issuer''))"
    by (rule first_violation_is_reported [OF _ _ a]) simp_all
  moreover have "call ?f ?c LockKeyfile [?q] = throw (Error (message_of ''password''))"
    by (rule first_violation_is_reported [OF _ _ b]) simp_all
  ultimately show ?thesis
    by (simp add: message_of_def del: call.simps)
qed

subsection \<open>Where the code departs from the claims\<close>

text \<open>
  Claim C3 fails on the code. \<^verbatim>\<open>getBalancesByKey\<close> has no check of its parameter object:
  called without arguments it reads \<^verbatim>\<open>publicKeys\<close> of \<^verbatim>\<open>undefined\<close>, a TypeError, and
  \<^verbatim>\<open>calcDelay\<close> fails with its ReferenceError; neither reports
  \<^verbatim>\<open>A parameter object must be specified\<close>.
\<close>

theorem missing_params_not_reported:
  "call fetch self GetBalancesByKey [] = throw TypeError \<and>
   call fetch self CalcDelay [] = throw (ReferenceError ''params is not defined'')"
  by (simp add: getBalancesByKey_def calcDelay_def read_prop_def arg_def Let_def)

text \<open>
  Claim C4 fails on the code for \<^verbatim>\<open>calcDelay\<close>: with a parameter object that lacks
  \<^verbatim>\<open>blockId\<close>, its first required field, the call is rejected with the ReferenceError,
  not with the error that names \<^verbatim>\<open>blockId\<close>.
\<close>

theorem calcDelay_first_field_not_named:
  "result (call fetch self CalcDelay [JObj [(''numBlocks'', JNum 3)]]) =
     Inl (ReferenceError ''params is not defined'')"
  by (simp add: calcDelay_def)

text \<open>
  Claim C7 fails on the code: whatever its arguments, \<^verbatim>\<open>calcDelay\<close> sends nothing and is
  rejected with the ReferenceError for \<^verbatim>\<open>params\<close>.
\<close>

theorem calcDelay_never_dispatches:
  "sent (call fetch self CalcDelay args) = [] \<and>
   result (call fetch self CalcDelay args) = Inl (ReferenceError ''params is not defined'')"
  by (simp add: calcDelay_def)

text \<open>
  Claim C5 fails on the code for \<^verbatim>\<open>calcDelay\<close>: a call with the parameter object
  \<^verbatim>\<open>{"blockId":"b","numBlocks":3}\<close>, which the validation policy accepts, posts no
  envelope to \<^verbatim>\<open>debug/\<close>; it sends nothing.
\<close>

theorem calcDelay_posts_no_envelope:
  "validation_policy CalcDelay (JObj [(''blockId'', JStr ''b''), (''numBlocks'', JNum 3)]) = None \<and>
   sent (call fetch self CalcDelay [JObj [(''blockId'', JStr ''b''), (''numBlocks'', JNum 3)]]) = []"
  by (simp add: calcDelay_def validation_policy_def absent_def field_def)

text \<open>
  Claim C8 fails on the code for \<^verbatim>\<open>calcDelay\<close>: after \<^verbatim>\<open>setUrl\<close> or \<^verbatim>\<open>setApiKey\<close>, a call
  with a parameter object that the validation policy accepts uses neither the new url nor
  the new key; it sends nothing.
\<close>

theorem calcDelay_ignores_setters:
  "sent (call fetch (setUrl u self) CalcDelay
      [JObj [(''blockId'', JStr ''b''), (''numBlocks'', JNum 3)]]) = [] \<and>
   sent (call fetch (setApiKey k self) CalcDelay
      [JObj [(''blockId'', JStr ''b''), (''numBlocks'', JNum 3)]]) = []"
  by (simp add: calcDelay_def)

text \<open>
  Claim C9 fails on the code for \<^verbatim>\<open>calcDelay\<close>: whether the caller's id is the falsy
  \<^verbatim>\<open>""\<close> or the truthy \<^verbatim>\<open>"7"\<close>, no envelope carries an id; the call sends nothing.
\<close>

theorem calcDelay_forwards_no_id:
  "sent (call fetch self CalcDelay
      [JObj [(''blockId'', JStr ''b''), (''numBlocks'', JNum 3)], JStr '''']) = [] \<and>
   sent (call fetch self CalcDelay
      [JObj [(''blockId'', JStr ''b''), (''numBlocks'', JNum 3)], JStr ''7'']) = []"
  by (simp add: calcDelay_def)

end
